theory Spec2Isabelle
  imports Main "HOL-Library.AList"
begin

section \<open>Python built-ins used by the bot\<close>

text \<open>
  Strings are byte strings: an ASCII character is one \<^typ>\<open>char\<close>, a character
  beyond ASCII is its UTF-8 bytes. Python's \<open>int\<close> also accepts decimal digits and
  white space beyond ASCII and may bound the number of digits; on such text \<open>py_int\<close>
  answers \<open>None\<close>, so it accepts no more than Python does, and with the same value.
\<close>

definition LF :: char where
  "LF = CHR 0x0A"

definition is_space :: "char \<Rightarrow> bool" where
  "is_space c = (c \<in> set [CHR 0x09, CHR 0x0A, CHR 0x0B, CHR 0x0C, CHR 0x0D, CHR '' ''])"

definition is_digit :: "char \<Rightarrow> bool" where
  "is_digit c = (48 \<le> (of_char c :: nat) \<and> (of_char c :: nat) \<le> 57)"

definition digit_val :: "char \<Rightarrow> nat" where
  "digit_val c = of_char c - 48"

definition digit_char :: "nat \<Rightarrow> char" where
  "digit_char d = ''0123456789'' ! d"

text \<open>The digits of \<open>int(s)\<close>: an underscore is allowed between two digits only.\<close>

fun digits_value :: "nat \<Rightarrow> string \<Rightarrow> nat option" where
  "digits_value acc [] = Some acc"
| "digits_value acc (c # cs) =
     (if is_digit c then digits_value (10 * acc + digit_val c) cs
      else if c = CHR ''_'' then
        (case cs of [] \<Rightarrow> None
         | d # _ \<Rightarrow> if is_digit d then digits_value acc cs else None)
      else None)"

text \<open>\<open>int(s)\<close> on a string: \<open>None\<close> is the ValueError.\<close>

definition py_int :: "string \<Rightarrow> int option" where
  "py_int s =
     (let t = rev (dropWhile is_space (rev (dropWhile is_space s)));
          neg = (case t of [] \<Rightarrow> False | c # _ \<Rightarrow> c = CHR ''-'');
          b = (case t of [] \<Rightarrow> [] | c # r \<Rightarrow> if c = CHR ''-'' \<or> c = CHR ''+'' then r else t)
      in case b of [] \<Rightarrow> None
         | c # _ \<Rightarrow>
             if is_digit c
             then map_option (\<lambda>n. if neg then - int n else int n) (digits_value 0 b)
             else None)"

fun str_nat :: "nat \<Rightarrow> string" where
  "str_nat n = (if n < 10 then [digit_char n] else str_nat (n div 10) @ [digit_char (n mod 10)])"

text \<open>\<open>str(i)\<close> on an integer.\<close>

definition py_str :: "int \<Rightarrow> string" where
  "py_str i = (if i < 0 then CHR ''-'' # str_nat (nat (- i)) else str_nat (nat i))"

definition startswith :: "string \<Rightarrow> string \<Rightarrow> bool" where
  "startswith s p = (take (length p) s = p)"

text \<open>\<open>s.lstrip("@")\<close>.\<close>

definition lstrip_at :: "string \<Rightarrow> string" where
  "lstrip_at s = dropWhile (\<lambda>c. c = CHR ''@'') s"

text \<open>\<open>s.lower()\<close>, on the ASCII letters.\<close>

definition lower_char :: "char \<Rightarrow> char" where
  "lower_char c =
     (case map_of (zip ''ABCDEFGHIJKLMNOPQRSTUVWXYZ'' ''abcdefghijklmnopqrstuvwxyz'') c of
        None \<Rightarrow> c
      | Some l \<Rightarrow> l)"

definition lower :: "string \<Rightarrow> string" where
  "lower s = map lower_char s"

text \<open>\<open>s.replace(pat, "")\<close>: every occurrence of \<open>pat\<close>, left to right, is dropped.\<close>

function remove_all :: "string \<Rightarrow> string \<Rightarrow> string" where
  "remove_all pat [] = []"
| "remove_all pat (c # cs) =
     (if pat \<noteq> [] \<and> startswith (c # cs) pat
      then remove_all pat (drop (length pat) (c # cs))
      else c # remove_all pat cs)"
  by pat_completeness auto
termination
  by (relation "measure (\<lambda>(pat, s). length s)") auto

text \<open>\<open>s.split(d)\<close> for a one-character separator: always at least one piece.\<close>

fun split_on :: "char \<Rightarrow> string \<Rightarrow> string list" where
  "split_on d [] = [] # []"
| "split_on d (c # cs) =
     (if c = d then [] # split_on d cs
      else (case split_on d cs of [] \<Rightarrow> [c] # [] | w # ws \<Rightarrow> (c # w) # ws))"

text \<open>\<open>html.escape(s)\<close>.\<close>

definition escape_char :: "char \<Rightarrow> string" where
  "escape_char c =
     (if c = CHR ''&'' then ''&amp;''
      else if c = CHR ''<'' then ''&lt;''
      else if c = CHR ''>'' then ''&gt;''
      else if c = CHR 0x22 then ''&quot;''
      else if c = CHR 0x27 then ''&#x27;''
      else [c])"

definition html_escape :: "string \<Rightarrow> string" where
  "html_escape s = concat (map escape_char s)"

text \<open>The format \<open>{n:,}\<close>: a comma before every group of three digits.\<close>

fun group3 :: "string \<Rightarrow> string" where
  "group3 (a # b # c # d # ds) = a # b # c # CHR '','' # group3 (d # ds)"
| "group3 ds = ds"

definition with_commas :: "int \<Rightarrow> string" where
  "with_commas i =
     (if i < 0 then CHR ''-'' # rev (group3 (rev (str_nat (nat (- i)))))
      else rev (group3 (rev (str_nat (nat i)))))"

section \<open>Configuration\<close>

definition OWNER_ID :: int where
  "OWNER_ID = 1768830793"

text \<open>The currency sign, U+20B1, in UTF-8.\<close>

definition CURRENCY :: string where
  "CURRENCY = [CHR 0xE2, CHR 0x82, CHR 0xB1]"

text \<open>The cloud of the breakdown lines, U+2601 U+FE0F, in UTF-8.\<close>

definition CLOUD :: string where
  "CLOUD = [CHR 0xE2, CHR 0x98, CHR 0x81, CHR 0xEF, CHR 0xB8, CHR 0x8F]"

section \<open>Data model\<close>

text \<open>A chat user, and the part of an update that the handlers read.\<close>

record user =
  user_id :: int
  username :: "string option"
  first_name :: string
  full_name :: string

record update =
  effective_user :: user
  reply_to_message :: "user option"
  args :: "string list"

text \<open>
  Column 8 of the sheet holds \<open>json.dumps\<close> of a dictionary from names to integers, in
  insertion order. The cell is modelled by what \<open>json.loads\<close> makes of it: \<open>Blank\<close> is
  the empty cell, \<open>JsonDict d\<close> the text of the dictionary \<open>d\<close>, \<open>Malformed\<close> a text
  that \<open>json.loads\<close> rejects.
\<close>

datatype contrib_cell = Blank | JsonDict "(string \<times> int) list" | Malformed

text \<open>One row of the sheet; an empty cell is the empty string.\<close>

record account_row =
  c_id :: string
  c_name :: string
  c_username :: string
  c_link :: string
  c_balance :: string
  c_updated :: string
  c_tx :: string
  c_contrib :: contrib_cell

record pending_transfer =
  sender_id :: int
  sender_row :: nat
  target_id :: string
  target_row :: nat
  target_name :: string
  amount :: int

text \<open>
  The state of the process: the remote sheet, the dictionary \<open>pending_transfers\<close>, the
  list \<open>ADMINS\<close> (a user without a username has \<open>None\<close>), and the file
  \<open>admins.json\<close> (\<open>None\<close> while it does not exist).
\<close>

record state =
  sheet :: "account_row list"
  pending_transfers :: "string \<rightharpoonup> pending_transfer"
  ADMINS :: "string option list"
  admins_json :: "string option list option"

text \<open>What a handler tells the user; \<open>Raised\<close> is an exception that ends the handler.\<close>

datatype outcome =
    Ok | Shown | Cancelled | NoAction
  | Unauthorized | Usage | NotFound | InvalidAmount | AlreadyExists
  | InsufficientFunds | SelfTransfer | Expired | NotOwner
  | AlreadyManager | NotManager | OwnerImmutable | Raised

section \<open>The sheet\<close>

definition blank_row :: account_row where
  "blank_row = \<lparr>c_id = [], c_name = [], c_username = [], c_link = [], c_balance = [],
     c_updated = [], c_tx = [], c_contrib = Blank\<rparr>"

text \<open>\<open>sheet.cell(row, col)\<close> reads a row; rows count from 1, a row below the data is empty.\<close>

definition row_at :: "account_row list \<Rightarrow> nat \<Rightarrow> account_row" where
  "row_at sh r = (if 1 \<le> r \<and> r \<le> length sh then sh ! (r - 1) else blank_row)"

text \<open>
  \<open>sheet.update_cell(row, col, v)\<close> with \<open>f\<close> setting the column; a row below the data
  comes into being with its other cells empty.
\<close>

definition update_row :: "nat \<Rightarrow> (account_row \<Rightarrow> account_row) \<Rightarrow> account_row list \<Rightarrow> account_row list" where
  "update_row r f sh =
     (let padded = sh @ replicate (r - length sh) blank_row
      in if 1 \<le> r then padded[r - 1 := f (padded ! (r - 1))] else sh)"

text \<open>\<open>sheet.col_values(col)\<close>: the column down to its last cell that is not empty.\<close>

definition col_values :: "(account_row \<Rightarrow> string) \<Rightarrow> account_row list \<Rightarrow> string list" where
  "col_values col sh = rev (dropWhile (\<lambda>v. v = []) (rev (map col sh)))"

text \<open>
  \<open>sheet.row_values(row)\<close>: the row up to its last cell that is not empty. The handlers
  index positions 0 to 5 only, so the text of column 8 is left out of the list.
\<close>

definition row_len :: "account_row \<Rightarrow> nat" where
  "row_len a =
     (if c_contrib a \<noteq> Blank then 8
      else length (dropWhile (\<lambda>v. v = [])
        (rev [c_id a, c_name a, c_username a, c_link a, c_balance a, c_updated a, c_tx a])))"

definition row_values :: "account_row \<Rightarrow> string list" where
  "row_values a =
     take (row_len a) [c_id a, c_name a, c_username a, c_link a, c_balance a, c_updated a, c_tx a]"

text \<open>The loop \<open>for i, val in enumerate(data): if ...: return i + 1\<close>, then \<open>return None\<close>.\<close>

fun find_first :: "('a \<Rightarrow> bool) \<Rightarrow> 'a list \<Rightarrow> nat option" where
  "find_first P [] = None"
| "find_first P (x # xs) = (if P x then Some 1 else map_option Suc (find_first P xs))"

definition find_user_row :: "account_row list \<Rightarrow> int \<Rightarrow> nat option" where
  "find_user_row sh uid = find_first (\<lambda>val. val = py_str uid) (col_values c_id sh)"

definition find_user_by_username :: "account_row list \<Rightarrow> string \<Rightarrow> nat option" where
  "find_user_by_username sh name =
     (let u = lstrip_at name
      in find_first (\<lambda>val. lower (lstrip_at val) = lower u) (col_values c_username sh))"

section \<open>Access policy\<close>

definition can_modify :: "state \<Rightarrow> user \<Rightarrow> bool" where
  "can_modify st u = (user_id u = OWNER_ID \<or> username u \<in> set (ADMINS st))"

definition save_admins :: "state \<Rightarrow> state" where
  "save_admins st = st\<lparr>admins_json := Some (ADMINS st)\<rparr>"

text \<open>
  The start of the process: the module binds \<open>ADMINS\<close> and \<open>pending_transfers\<close> to
  their literals and opens the sheet; \<open>admins.json\<close> is whatever the last run left.
\<close>

definition startup :: "account_row list \<Rightarrow> string option list option \<Rightarrow> state" where
  "startup sh file = \<lparr>sheet = sh, pending_transfers = Map.empty,
     ADMINS = [Some ''reviosa'', Some ''zaonoror''], admins_json = file\<rparr>"

definition prom :: "state \<Rightarrow> update \<Rightarrow> outcome \<times> state" where
  "prom st upd =
     (if user_id (effective_user upd) \<noteq> OWNER_ID then (Unauthorized, st)
      else case reply_to_message upd of
        None \<Rightarrow> (Usage, st)
      | Some target \<Rightarrow>
          if user_id target = OWNER_ID then (OwnerImmutable, st)
          else if username target \<in> set (ADMINS st) then (AlreadyManager, st)
          else (Ok, save_admins (st\<lparr>ADMINS := ADMINS st @ [username target]\<rparr>)))"

definition dem :: "state \<Rightarrow> update \<Rightarrow> outcome \<times> state" where
  "dem st upd =
     (if user_id (effective_user upd) \<noteq> OWNER_ID then (Unauthorized, st)
      else case reply_to_message upd of
        None \<Rightarrow> (Usage, st)
      | Some target \<Rightarrow>
          if user_id target = OWNER_ID then (OwnerImmutable, st)
          else if username target \<notin> set (ADMINS st) then (NotManager, st)
          else (Ok, save_admins (st\<lparr>ADMINS := remove1 (username target) (ADMINS st)\<rparr>)))"

section \<open>Account directory\<close>

text \<open>
  Every handler takes \<open>now\<close>, the clock: \<open>now k\<close> is what the call number \<open>k\<close> of
  \<open>format_datetime()\<close> returns within this run of the handler.
\<close>

definition new :: "state \<Rightarrow> update \<Rightarrow> (nat \<Rightarrow> string) \<Rightarrow> outcome \<times> state" where
  "new st upd now =
     (if \<not> can_modify st (effective_user upd) then (Unauthorized, st)
      else case reply_to_message upd of
        None \<Rightarrow> (Usage, st)
      | Some target \<Rightarrow>
          (case find_user_row (sheet st) (user_id target) of
             Some row \<Rightarrow> (AlreadyExists, st)
           | None \<Rightarrow>
               let name = (if full_name target \<noteq> [] then full_name target else first_name target);
                   uname = (case username target of
                              None \<Rightarrow> []
                            | Some u \<Rightarrow> if u \<noteq> [] then CHR ''@'' # u else []);
                   link = ''<a href='' @ [CHR 0x27] @ ''tg://user?id='' @ py_str (user_id target)
                          @ [CHR 0x27] @ ''>'' @ html_escape (first_name target) @ ''</a>''
               in (Ok, st\<lparr>sheet := sheet st @
                    [\<lparr>c_id = py_str (user_id target), c_name = name, c_username = uname,
                      c_link = link, c_balance = ''0'', c_updated = now 0, c_tx = [],
                      c_contrib = Blank\<rparr>]\<rparr>)))"

section \<open>Contribution ledger\<close>

definition format_money :: "int \<Rightarrow> string" where
  "format_money amt = CURRENCY @ with_commas amt"

text \<open>
  \<open>sorted(advance.items(), key=lambda item: item[1], reverse=True)\<close>: by amount,
  largest first, equal amounts in the order of the dictionary.
\<close>

definition get_contribution_breakdown :: "account_row list \<Rightarrow> nat \<Rightarrow> string" where
  "get_contribution_breakdown sh row =
     (case c_contrib (row_at sh row) of
        Blank \<Rightarrow> []
      | Malformed \<Rightarrow> []
      | JsonDict advance \<Rightarrow>
          concat (map (\<lambda>(admin, amt). CLOUD @ '' '' @ admin @ '': '' @ format_money amt @ [LF])
            (sort_key (\<lambda>item. - snd item) advance)))"

text \<open>
  The expression \<open>f"{entry}\n{prev_tx}" if prev_tx else f"{entry}"\<close> of the four places
  that write column 7.
\<close>

definition prepend_tx :: "string \<Rightarrow> string \<Rightarrow> string" where
  "prepend_tx entry prev_tx = (if prev_tx \<noteq> [] then entry @ [LF] @ prev_tx else entry)"

text \<open>The list of entries that the transaction view makes of column 7.\<close>

definition tx_list :: "string \<Rightarrow> string list" where
  "tx_list transactions = (if transactions \<noteq> [] then split_on LF transactions else [])"

text \<open>
  \<open>json.loads(cell) if cell else {}\<close> on column 8; \<open>None\<close> is the JSONDecodeError.
\<close>

fun load_contributions :: "contrib_cell \<Rightarrow> (string \<times> int) list option" where
  "load_contributions Blank = Some []"
| "load_contributions (JsonDict d) = Some d"
| "load_contributions Malformed = None"

text \<open>\<open>contributions.get(admin_name, 0)\<close>.\<close>

definition get_or_zero :: "(string \<times> int) list \<Rightarrow> string \<Rightarrow> int" where
  "get_or_zero d k = (case map_of d k of None \<Rightarrow> 0 | Some v \<Rightarrow> v)"

text \<open>The writes of \<open>add\<close>, from the read of the balance to the end.\<close>

definition add_write :: "state \<Rightarrow> nat \<Rightarrow> int \<Rightarrow> string \<Rightarrow> (nat \<Rightarrow> string) \<Rightarrow> outcome \<times> state" where
  "add_write st row amt admin_name now =
     (case py_int (c_balance (row_at (sheet st) row)) of
        None \<Rightarrow> (Raised, st)
      | Some current_balance \<Rightarrow>
          let new_balance = current_balance + amt;
              sh1 = update_row row (\<lambda>a. a\<lparr>c_balance := py_str new_balance\<rparr>) (sheet st);
              sh2 = update_row row (\<lambda>a. a\<lparr>c_updated := now 0\<rparr>) sh1;
              prev_tx = c_tx (row_at sh2 row);
              new_tx = prepend_tx (now 1 @ '' + '' @ CURRENCY @ py_str amt @ '' '' @ admin_name) prev_tx;
              sh3 = update_row row (\<lambda>a. a\<lparr>c_tx := new_tx\<rparr>) sh2
          in (case load_contributions (c_contrib (row_at sh3 row)) of
                None \<Rightarrow> (Raised, st\<lparr>sheet := sh3\<rparr>)
              | Some contributions \<Rightarrow>
                  let contributions' =
                        AList.update admin_name (get_or_zero contributions admin_name + amt) contributions
                  in (Ok, st\<lparr>sheet := update_row row (\<lambda>a. a\<lparr>c_contrib := JsonDict contributions'\<rparr>) sh3\<rparr>)))"

definition add :: "state \<Rightarrow> update \<Rightarrow> (nat \<Rightarrow> string) \<Rightarrow> outcome \<times> state" where
  "add st upd now =
     (if \<not> can_modify st (effective_user upd) then (Unauthorized, st)
      else case reply_to_message upd of
        Some target \<Rightarrow>
          if args upd = [] then (Usage, st)
          else (case py_int (args upd ! 0) of
                  None \<Rightarrow> (InvalidAmount, st)
                | Some amt \<Rightarrow>
                    (case find_user_row (sheet st) (user_id target) of
                       None \<Rightarrow> (NotFound, st)
                     | Some row \<Rightarrow> add_write st row amt (first_name (effective_user upd)) now))
      | None \<Rightarrow>
          if 2 \<le> length (args upd) \<and> startswith (args upd ! 0) ''@'' then
            (case find_user_by_username (sheet st) (args upd ! 0) of
               None \<Rightarrow> (NotFound, st)
             | Some row \<Rightarrow>
                 if length (row_values (row_at (sheet st) row)) < 2 then (Raised, st)
                 else (case py_int (args upd ! 1) of
                         None \<Rightarrow> (InvalidAmount, st)
                       | Some amt \<Rightarrow> add_write st row amt (first_name (effective_user upd)) now))
          else (Usage, st))"

text \<open>The writes of \<open>use\<close>, from the read of the balance to the end.\<close>

definition use_write :: "state \<Rightarrow> nat \<Rightarrow> int \<Rightarrow> string \<Rightarrow> (nat \<Rightarrow> string) \<Rightarrow> outcome \<times> state" where
  "use_write st row amt admin_name now =
     (case py_int (c_balance (row_at (sheet st) row)) of
        None \<Rightarrow> (Raised, st)
      | Some current_balance \<Rightarrow>
          let new_balance = current_balance - amt;
              sh1 = update_row row (\<lambda>a. a\<lparr>c_balance := py_str new_balance\<rparr>) (sheet st);
              sh2 = update_row row (\<lambda>a. a\<lparr>c_updated := now 0\<rparr>) sh1;
              prev_tx = c_tx (row_at sh2 row);
              new_tx = prepend_tx (now 1 @ '' - '' @ CURRENCY @ py_str amt @ '' '' @ admin_name) prev_tx;
              sh3 = update_row row (\<lambda>a. a\<lparr>c_tx := new_tx\<rparr>) sh2
          in (case load_contributions (c_contrib (row_at sh3 row)) of
                None \<Rightarrow> (Raised, st\<lparr>sheet := sh3\<rparr>)
              | Some contributions \<Rightarrow>
                  (case map_of contributions admin_name of
                     None \<Rightarrow> (Ok, st\<lparr>sheet := sh3\<rparr>)
                   | Some old \<Rightarrow>
                       let c1 = AList.update admin_name (old - amt) contributions;
                           c2 = (if old - amt \<le> 0 then AList.delete admin_name c1 else c1)
                       in (Ok, st\<lparr>sheet := update_row row (\<lambda>a. a\<lparr>c_contrib := JsonDict c2\<rparr>) sh3\<rparr>))))"

definition use :: "state \<Rightarrow> update \<Rightarrow> (nat \<Rightarrow> string) \<Rightarrow> outcome \<times> state" where
  "use st upd now =
     (if \<not> can_modify st (effective_user upd) then (Unauthorized, st)
      else case reply_to_message upd of
        Some target \<Rightarrow>
          if args upd = [] then (Usage, st)
          else (case py_int (args upd ! 0) of
                  None \<Rightarrow> (InvalidAmount, st)
                | Some amt \<Rightarrow>
                    (case find_user_row (sheet st) (user_id target) of
                       None \<Rightarrow> (NotFound, st)
                     | Some row \<Rightarrow> use_write st row amt (first_name (effective_user upd)) now))
      | None \<Rightarrow>
          if 2 \<le> length (args upd) \<and> startswith (args upd ! 0) ''@'' then
            (case find_user_by_username (sheet st) (args upd ! 0) of
               None \<Rightarrow> (NotFound, st)
             | Some row \<Rightarrow>
                 (case py_int (args upd ! 1) of
                    None \<Rightarrow> (InvalidAmount, st)
                  | Some amt \<Rightarrow>
                      if length (row_values (row_at (sheet st) row)) < 2 then (Raised, st)
                      else use_write st row amt (first_name (effective_user upd)) now))
          else (Usage, st))"

text \<open>
  The row and the amount that \<open>add\<close> and \<open>use\<close> take from a command: in the
  reply form the row of the user replied to and the first argument, in the mention form
  the row of the handle and the second argument.
\<close>

definition resolves :: "state \<Rightarrow> update \<Rightarrow> nat \<Rightarrow> int \<Rightarrow> bool" where
  "resolves st upd row amt =
     (case reply_to_message upd of
        Some target \<Rightarrow>
          args upd \<noteq> [] \<and> py_int (args upd ! 0) = Some amt \<and>
          find_user_row (sheet st) (user_id target) = Some row
      | None \<Rightarrow>
          2 \<le> length (args upd) \<and> startswith (args upd ! 0) ''@'' \<and>
          find_user_by_username (sheet st) (args upd ! 0) = Some row \<and>
          py_int (args upd ! 1) = Some amt)"

text \<open>
  The rule of the specification for the contributions, in its words:
  \<open>contributions[actorName] += signedAmount\<close>, deleting the entry if the result is
  at most 0. It is compared with what \<open>add\<close> and \<open>use\<close> store.
\<close>

definition spec_contributions :: "(string \<times> int) list \<Rightarrow> string \<Rightarrow> int \<Rightarrow> (string \<times> int) list" where
  "spec_contributions d actor signed_amount =
     (let v = get_or_zero d actor + signed_amount
      in if v \<le> 0 then AList.delete actor d else AList.update actor v d)"

text \<open>
  \<open>clear\<close>: only the reply form reaches the writes; the lines under the comment
  \<open>Case 2: Mention\<close> sit inside the reply branch and read two cells there.
\<close>

definition clear :: "state \<Rightarrow> update \<Rightarrow> (nat \<Rightarrow> string) \<Rightarrow> outcome \<times> state" where
  "clear st upd now =
     (if \<not> can_modify st (effective_user upd) then (Unauthorized, st)
      else case reply_to_message upd of
        None \<Rightarrow> (Usage, st)
      | Some target \<Rightarrow>
          (case find_user_row (sheet st) (user_id target) of
             None \<Rightarrow> (NotFound, st)
           | Some t_row \<Rightarrow>
               let sh1 = update_row t_row (\<lambda>a. a\<lparr>c_balance := ''0''\<rparr>) (sheet st);
                   sh2 = update_row t_row (\<lambda>a. a\<lparr>c_updated := now 0\<rparr>) sh1;
                   sh3 = update_row t_row (\<lambda>a. a\<lparr>c_tx := []\<rparr>) sh2;
                   sh4 = update_row t_row (\<lambda>a. a\<lparr>c_contrib := Blank\<rparr>) sh3
               in (Ok, st\<lparr>sheet := sh4\<rparr>)))"

section \<open>Transfer protocol\<close>

text \<open>
  \<open>transfer\<close>; \<open>stamp\<close> is the text of \<open>datetime.now().timestamp()\<close> that ends the
  transfer id.
\<close>

definition transfer :: "state \<Rightarrow> update \<Rightarrow> string \<Rightarrow> outcome \<times> state" where
  "transfer st upd stamp =
     (let usr = effective_user upd in
      if \<not> can_modify st usr then (Unauthorized, st)
      else case find_user_row (sheet st) (user_id usr) of
        None \<Rightarrow> (NotFound, st)
      | Some s_row \<Rightarrow>
          if length (args upd) < 2 then (Usage, st)
          else (case py_int (args upd ! 1) of
                  None \<Rightarrow> (InvalidAmount, st)
                | Some amt \<Rightarrow>
                    if amt \<le> 0 then (InvalidAmount, st)
                    else (case find_user_by_username (sheet st) (args upd ! 0) of
                            None \<Rightarrow> (NotFound, st)
                          | Some t_row \<Rightarrow>
                              (case py_int (c_balance (row_at (sheet st) s_row)) of
                                 None \<Rightarrow> (Raised, st)
                               | Some sender_balance \<Rightarrow>
                                   if sender_balance < amt then (InsufficientFunds, st)
                                   else
                                     let target_data = row_values (row_at (sheet st) t_row) in
                                     if length target_data < 2 then (Raised, st)
                                     else
                                       let t_name = target_data ! 1;
                                           t_id = target_data ! 0
                                       in if t_id = py_str (user_id usr) then (SelfTransfer, st)
                                          else
                                            let transfer_id = py_str (user_id usr) @ ''_'' @ t_id @ ''_''
                                                  @ py_str amt @ ''_'' @ stamp
                                            in (Ok, st\<lparr>pending_transfers := (pending_transfers st)
                                                 (transfer_id \<mapsto> \<lparr>sender_id = user_id usr, sender_row = s_row,
                                                    target_id = t_id, target_row = t_row,
                                                    target_name = t_name, amount = amt\<rparr>)\<rparr>)))))"

text \<open>The branch \<open>confirm_\<close> of \<open>button_callback\<close>, from the lookup of the transfer id.\<close>

definition confirm_transfer :: "state \<Rightarrow> user \<Rightarrow> string \<Rightarrow> (nat \<Rightarrow> string) \<Rightarrow> outcome \<times> state" where
  "confirm_transfer st usr transfer_id now =
     (case pending_transfers st transfer_id of
        None \<Rightarrow> (Expired, st)
      | Some transfer_data \<Rightarrow>
          if sender_id transfer_data \<noteq> user_id usr then (NotOwner, st)
          else (case py_int (c_balance (row_at (sheet st) (sender_row transfer_data))) of
                  None \<Rightarrow> (Raised, st)
                | Some sender_balance \<Rightarrow>
                    if sender_balance < amount transfer_data
                    then (InsufficientFunds,
                          st\<lparr>pending_transfers := (pending_transfers st)(transfer_id := None)\<rparr>)
                    else
                      let amt = amount transfer_data;
                          s_row = sender_row transfer_data;
                          t_row = target_row transfer_data;
                          t_name = target_name transfer_data;
                          new_sender_balance = sender_balance - amt;
                          sh1 = update_row s_row (\<lambda>a. a\<lparr>c_balance := py_str new_sender_balance\<rparr>) (sheet st);
                          sh2 = update_row s_row (\<lambda>a. a\<lparr>c_updated := now 0\<rparr>) sh1;
                          prev_tx = c_tx (row_at sh2 s_row);
                          new_tx = prepend_tx (now 1 @ '' - '' @ CURRENCY @ py_str amt @ '' '' @ t_name) prev_tx;
                          sh3 = update_row s_row (\<lambda>a. a\<lparr>c_tx := new_tx\<rparr>) sh2
                      in (case py_int (c_balance (row_at sh3 t_row)) of
                           None \<Rightarrow> (Raised, st\<lparr>sheet := sh3\<rparr>)
                         | Some target_balance \<Rightarrow>
                             let new_target_balance = target_balance + amt;
                                 sh4 = update_row t_row (\<lambda>a. a\<lparr>c_balance := py_str new_target_balance\<rparr>) sh3;
                                 sh5 = update_row t_row (\<lambda>a. a\<lparr>c_updated := now 2\<rparr>) sh4;
                                 sender_name = c_name (row_at sh5 s_row);
                                 prev_tx_target = c_tx (row_at sh5 t_row);
                                 new_tx_target = prepend_tx
                                   (now 3 @ '' + '' @ CURRENCY @ py_str amt @ '' '' @ sender_name) prev_tx_target;
                                 sh6 = update_row t_row (\<lambda>a. a\<lparr>c_tx := new_tx_target\<rparr>) sh5
                             in (Ok, st\<lparr>sheet := sh6,
                                   pending_transfers := (pending_transfers st)(transfer_id := None)\<rparr>))))"

text \<open>The branch \<open>cancel_\<close> of \<open>button_callback\<close>, from the lookup of the transfer id.\<close>

definition cancel_transfer :: "state \<Rightarrow> user \<Rightarrow> string \<Rightarrow> outcome \<times> state" where
  "cancel_transfer st usr transfer_id =
     (case pending_transfers st transfer_id of
        None \<Rightarrow> (Cancelled, st)
      | Some transfer_data \<Rightarrow>
          if sender_id transfer_data \<noteq> user_id usr then (NotOwner, st)
          else (Cancelled, st\<lparr>pending_transfers := (pending_transfers st)(transfer_id := None)\<rparr>))"

text \<open>
  \<open>button_callback\<close>: the branches that show a view leave the state as it is; an
  unreadable id or balance in the callback data raises there.
\<close>

definition button_callback :: "state \<Rightarrow> user \<Rightarrow> string \<Rightarrow> (nat \<Rightarrow> string) \<Rightarrow> outcome \<times> state" where
  "button_callback st usr data now =
     (if startswith data ''tx_'' then
        (case py_int (split_on CHR ''_'' data ! 1) of
           None \<Rightarrow> (Raised, st)
         | Some tid \<Rightarrow>
             (case find_user_row (sheet st) tid of
                None \<Rightarrow> (NotFound, st)
              | Some t_row \<Rightarrow> (Shown, st)))
      else if startswith data ''back_'' then
        (case py_int (split_on CHR ''_'' data ! 1) of
           None \<Rightarrow> (Raised, st)
         | Some tid \<Rightarrow>
             (case find_user_row (sheet st) tid of
                None \<Rightarrow> (NotFound, st)
              | Some t_row \<Rightarrow>
                  if length (row_values (row_at (sheet st) t_row)) < 6 then (Raised, st)
                  else if py_int (c_balance (row_at (sheet st) t_row)) = None then (Raised, st)
                  else (Shown, st)))
      else if startswith data ''close_'' then (Shown, st)
      else if startswith data ''confirm_'' then
        confirm_transfer st usr (remove_all ''confirm_'' data) now
      else if startswith data ''cancel_'' then
        cancel_transfer st usr (remove_all ''cancel_'' data)
      else (NoAction, st))"

section \<open>A small bank, for running the handlers\<close>

definition ex_now :: "nat \<Rightarrow> string" where
  "ex_now k = ''11-04-2026, 09:15 PM''"

definition ex_owner :: user where
  "ex_owner = \<lparr>user_id = 1768830793, username = Some ''riv'', first_name = ''root'',
     full_name = ''root''\<rparr>"

definition ex_ava :: user where
  "ex_ava = \<lparr>user_id = 42, username = Some ''ava'', first_name = ''Ava'', full_name = ''Ava''\<rparr>"

definition ex_bob :: user where
  "ex_bob = \<lparr>user_id = 7, username = Some ''bob'', first_name = ''Bob'', full_name = ''Bob''\<rparr>"

definition ex_cat :: user where
  "ex_cat = \<lparr>user_id = 9, username = Some ''cat'', first_name = ''Cat'', full_name = ''Cat''\<rparr>"

text \<open>The sheet: its header line, then the accounts of Ava and Bob.\<close>

definition ex_sheet :: "account_row list" where
  "ex_sheet =
     [\<lparr>c_id = ''ID'', c_name = ''Name'', c_username = ''Username'', c_link = ''Link'',
       c_balance = ''Balance'', c_updated = ''Last Updated'', c_tx = ''Transactions'',
       c_contrib = Blank\<rparr>,
      \<lparr>c_id = ''42'', c_name = ''Ava'', c_username = ''@ava'', c_link = ''ava'',
       c_balance = ''500'', c_updated = ''11-01-2026, 10:00 AM'',
       c_tx = ''11-01-2026, 10:00 AM + 500 root'', c_contrib = JsonDict [(''root'', 500)]\<rparr>,
      \<lparr>c_id = ''7'', c_name = ''Bob'', c_username = ''@bob'', c_link = ''bob'',
       c_balance = ''0'', c_updated = ''11-01-2026, 09:00 AM'', c_tx = [], c_contrib = Blank\<rparr>]"

text \<open>Ava has been promoted, so she may propose transfers.\<close>

definition ex_state :: state where
  "ex_state = \<lparr>sheet = ex_sheet, pending_transfers = Map.empty,
     ADMINS = [Some ''reviosa'', Some ''zaonoror'', Some ''ava''], admins_json = None\<rparr>"

definition ex_pending :: pending_transfer where
  "ex_pending = \<lparr>sender_id = 42, sender_row = 2, target_id = ''7'', target_row = 3,
     target_name = ''Bob'', amount = 200\<rparr>"

text \<open>The state after Ava's \<open>/transfer @bob 200\<close>.\<close>

definition ex_proposed :: state where
  "ex_proposed = ex_state\<lparr>pending_transfers := [''42_7_200_1762290900.5'' \<mapsto> ex_pending]\<rparr>"

definition ex_confirm :: string where
  "ex_confirm = ''confirm_42_7_200_1762290900.5''"

definition ex_cancel :: string where
  "ex_cancel = ''cancel_42_7_200_1762290900.5''"

text \<open>The same proposal after 400 were deducted from Ava: her balance no longer covers it.\<close>

definition ex_drained :: state where
  "ex_drained = ex_proposed\<lparr>sheet := update_row 2 (\<lambda>a. a\<lparr>c_balance := ''100''\<rparr>) ex_sheet\<rparr>"

text \<open>The owner replies to a message of Ava, or of Cat, who has no account yet.\<close>

definition ex_to_ava :: update where
  "ex_to_ava = \<lparr>effective_user = ex_owner, reply_to_message = Some ex_ava, args = []\<rparr>"

definition ex_to_cat :: update where
  "ex_to_cat = \<lparr>effective_user = ex_owner, reply_to_message = Some ex_cat, args = []\<rparr>"

section \<open>Integers and their text\<close>

declare str_nat.simps [simp del]

lemma digit_in_table: "d < 10 \<Longrightarrow> d \<in> {0, 1, 2, 3, 4, 5, 6, 7, 8, 9 :: nat}"
  by auto

lemma is_digit_digit_char: "d < 10 \<Longrightarrow> is_digit (digit_char d)"
  using digit_in_table [of d] by (auto simp: is_digit_def digit_char_def)

lemma digit_val_digit_char: "d < 10 \<Longrightarrow> digit_val (digit_char d) = d"
  using digit_in_table [of d] by (auto simp: digit_val_def digit_char_def)

lemma str_nat_digits: "\<forall>c\<in>set (str_nat n). is_digit c"
proof (induction n rule: str_nat.induct)
  case (1 n)
  show ?case
  proof (cases "n < 10")
    case True
    then show ?thesis by (subst str_nat.simps) (simp add: is_digit_digit_char)
  next
    case False
    with 1 show ?thesis by (subst str_nat.simps) (simp add: is_digit_digit_char)
  qed
qed

lemma str_nat_nonempty: "str_nat n \<noteq> []"
  by (subst str_nat.simps) simp

lemma digits_value_append:
  "\<forall>c\<in>set xs. is_digit c \<Longrightarrow>
   digits_value acc (xs @ ys) = digits_value (foldl (\<lambda>a c. 10 * a + digit_val c) acc xs) ys"
  by (induction xs arbitrary: acc) simp_all

lemma foldl_str_nat:
  "foldl (\<lambda>a c. 10 * a + digit_val c) acc (str_nat n) = acc * 10 ^ length (str_nat n) + n"
proof (induction n arbitrary: acc rule: str_nat.induct)
  case (1 n)
  show ?case
  proof (cases "n < 10")
    case True
    then show ?thesis by (subst (1 2) str_nat.simps) (simp add: digit_val_digit_char)
  next
    case False
    then have "foldl (\<lambda>a c. 10 * a + digit_val c) acc (str_nat n)
        = 10 * (acc * 10 ^ length (str_nat (n div 10)) + n div 10) + n mod 10"
      using 1 [OF False] by (subst str_nat.simps) (simp add: digit_val_digit_char)
    also have "\<dots> = acc * 10 ^ length (str_nat n) + n"
      using False by (subst (2) str_nat.simps) (simp add: algebra_simps)
    finally show ?thesis .
  qed
qed

lemma digits_value_str_nat: "digits_value 0 (str_nat n) = Some n"
  using digits_value_append [where xs = "str_nat n" and acc = 0 and ys = "[]"] str_nat_digits [of n]
  by (simp add: foldl_str_nat)

lemma digit_not_space: "is_digit c \<Longrightarrow> \<not> is_space c"
  by (auto simp: is_digit_def is_space_def)

lemma digit_not_sign: "is_digit c \<Longrightarrow> c \<noteq> CHR ''-'' \<and> c \<noteq> CHR ''+''"
  by (auto simp: is_digit_def)

lemma minus_not_space: "\<not> is_space CHR ''-''"
  by (simp add: is_space_def)

lemma strip_no_space:
  assumes "xs \<noteq> []" "\<not> is_space (hd xs)" "\<not> is_space (last xs)"
  shows "rev (dropWhile is_space (rev (dropWhile is_space xs))) = xs"
proof -
  from assms have a: "dropWhile is_space xs = xs"
    by (cases xs) simp_all
  from assms have "dropWhile is_space (rev xs) = rev xs"
    by (cases "rev xs") (simp_all add: last_rev [symmetric] hd_rev)
  with a show ?thesis by simp
qed

text \<open>Reading back what \<open>str\<close> wrote gives the number again.\<close>

lemma py_int_py_str: "py_int (py_str i) = Some i"
proof -
  define ds where "ds = str_nat (nat \<bar>i\<bar>)"
  have dig: "\<forall>c\<in>set ds. is_digit c" and ne: "ds \<noteq> []"
    and val: "digits_value 0 ds = Some (nat \<bar>i\<bar>)"
    by (simp_all add: ds_def str_nat_digits str_nat_nonempty digits_value_str_nat)
  from ne obtain c cs where cs: "ds = c # cs" by (cases ds) auto
  from dig ne have hd: "is_digit (hd ds)" and lst: "is_digit (last ds)" by simp_all
  show ?thesis
  proof (cases "i < 0")
    case True
    then have s: "py_str i = CHR ''-'' # ds" by (simp add: py_str_def ds_def)
    have "rev (dropWhile is_space (rev (dropWhile is_space (CHR ''-'' # ds)))) = CHR ''-'' # ds"
      using ne lst by (intro strip_no_space) (simp_all add: minus_not_space digit_not_space)
    then show ?thesis
      using True val hd by (simp add: py_int_def s cs)
  next
    case False
    then have s: "py_str i = ds" by (simp add: py_str_def ds_def)
    have "rev (dropWhile is_space (rev (dropWhile is_space ds))) = ds"
      using ne hd lst by (intro strip_no_space) (simp_all add: digit_not_space)
    then show ?thesis
      using False val hd digit_not_sign [of c] by (simp add: py_int_def s cs)
  qed
qed

lemma py_int_empty: "py_int [] = None"
  by (simp add: py_int_def)

lemma LF_not_digit: "\<not> is_digit LF"
  by (simp add: is_digit_def LF_def)

lemma LF_notin_py_str: "LF \<notin> set (py_str i)"
  using str_nat_digits LF_not_digit by (auto simp: py_str_def LF_def)

lemma LF_notin_CURRENCY: "LF \<notin> set CURRENCY"
  by (simp add: CURRENCY_def LF_def)

section \<open>Reading and writing rows\<close>

lemma row_at_update_row_same: "1 \<le> r \<Longrightarrow> row_at (update_row r f sh) r = f (row_at sh r)"
  by (auto simp: row_at_def update_row_def Let_def nth_append)

lemma row_at_update_row_other: "r' \<noteq> r \<Longrightarrow> row_at (update_row r f sh) r' = row_at sh r'"
  by (auto simp: row_at_def update_row_def Let_def nth_append nth_list_update)

lemma readable_row_pos:
  "py_int (c_balance (row_at sh r)) = Some b \<Longrightarrow> 1 \<le> r \<and> r \<le> length sh"
  by (cases "1 \<le> r \<and> r \<le> length sh") (auto simp: row_at_def blank_row_def py_int_empty)

section \<open>The transaction log\<close>

lemma length_split_on: "length (split_on d s) = Suc (length (filter (\<lambda>c. c = d) s))"
  by (induction s) (auto split: list.splits)

lemma filter_notin: "d \<notin> set s \<Longrightarrow> filter (\<lambda>c. c = d) s = []"
  by (induction s) auto

text \<open>An entry of one line adds one to the entries that the transaction view counts.\<close>

lemma tx_list_prepend:
  assumes "entry \<noteq> []" "LF \<notin> set entry"
  shows "length (tx_list (prepend_tx entry prev)) = Suc (length (tx_list prev))"
  using assms by (simp add: tx_list_def prepend_tx_def length_split_on filter_notin)


lemma LF_neq: "LF \<noteq> CHR '' ''" "LF \<noteq> CHR ''-''" "LF \<noteq> CHR ''+''"
  by (simp_all add: LF_def)

section \<open>The buttons of a transfer\<close>

lemma startswith_confirm:
  assumes "startswith data ''confirm_''"
  shows "\<not> startswith data ''tx_''" "\<not> startswith data ''back_''" "\<not> startswith data ''close_''"
  using assms by (cases data; cases "tl data"; auto simp: startswith_def)+

lemma startswith_cancel:
  assumes "startswith data ''cancel_''"
  shows "\<not> startswith data ''tx_''" "\<not> startswith data ''back_''" "\<not> startswith data ''close_''"
    "\<not> startswith data ''confirm_''"
  using assms by (cases data; cases "tl data"; auto simp: startswith_def)+

lemma button_callback_confirm:
  "startswith data ''confirm_'' \<Longrightarrow>
   button_callback st usr data now = confirm_transfer st usr (remove_all ''confirm_'' data) now"
  by (simp add: button_callback_def startswith_confirm)

lemma button_callback_cancel:
  "startswith data ''cancel_'' \<Longrightarrow>
   button_callback st usr data now = cancel_transfer st usr (remove_all ''cancel_'' data)"
  by (simp add: button_callback_def startswith_cancel)

text \<open>What a confirmation that succeeds has read and written.\<close>

lemma confirm_transfer_Ok_D:
  assumes ok: "confirm_transfer st usr tid now = (Ok, st')"
    and pend: "pending_transfers st tid = Some td"
    and diff: "sender_row td \<noteq> target_row td"
  shows "\<exists>sb tb.
      sender_id td = user_id usr \<and>
      py_int (c_balance (row_at (sheet st) (sender_row td))) = Some sb \<and>
      py_int (c_balance (row_at (sheet st) (target_row td))) = Some tb \<and>
      amount td \<le> sb \<and>
      row_at (sheet st') (sender_row td) = (row_at (sheet st) (sender_row td))
        \<lparr>c_balance := py_str (sb - amount td), c_updated := now 0,
         c_tx := prepend_tx (now 1 @ '' - '' @ CURRENCY @ py_str (amount td) @ '' '' @ target_name td)
                  (c_tx (row_at (sheet st) (sender_row td)))\<rparr> \<and>
      row_at (sheet st') (target_row td) = (row_at (sheet st) (target_row td))
        \<lparr>c_balance := py_str (tb + amount td), c_updated := now 2,
         c_tx := prepend_tx (now 3 @ '' + '' @ CURRENCY @ py_str (amount td) @ '' ''
                    @ c_name (row_at (sheet st) (sender_row td)))
                  (c_tx (row_at (sheet st) (target_row td)))\<rparr> \<and>
      (\<forall>r. r \<noteq> sender_row td \<and> r \<noteq> target_row td \<longrightarrow> row_at (sheet st') r = row_at (sheet st) r) \<and>
      pending_transfers st' = (pending_transfers st)(tid := None) \<and>
      ADMINS st' = ADMINS st \<and> admins_json st' = admins_json st"
proof -
  from ok pend obtain sb where own: "sender_id td = user_id usr"
    and sb: "py_int (c_balance (row_at (sheet st) (sender_row td))) = Some sb"
    and enough: "amount td \<le> sb"
    by (auto simp: confirm_transfer_def Let_def split: option.splits if_splits)
  from sb have s1: "1 \<le> sender_row td" using readable_row_pos by blast
  from ok pend own sb enough diff obtain tb
    where tb: "py_int (c_balance (row_at (sheet st) (target_row td))) = Some tb"
    by (auto simp: confirm_transfer_def Let_def row_at_update_row_other split: option.splits if_splits)
  from tb have t1: "1 \<le> target_row td" using readable_row_pos by blast
  from ok pend own sb enough diff tb s1 t1 show ?thesis
    by (auto simp: confirm_transfer_def Let_def row_at_update_row_other row_at_update_row_same
        split: option.splits if_splits)
qed

text \<open>
  C1. Whenever the confirm button of a pending transfer from the row of X to another row,
  that of Y, ends with the message of success, the balance of X was some number \<open>sb\<close>
  and is \<open>sb - A\<close> afterwards, the balance of Y was \<open>tb\<close> and is \<open>tb + A\<close>
  afterwards, and column 7 of either row is its former text with one entry put in
  front; the transaction view counts one entry more for either row, names and clock
  readings being single lines.
\<close>

theorem transfer_confirm_moves_amount:
  assumes ok: "button_callback st usr data now = (Ok, st')"
    and conf: "startswith data ''confirm_''"
    and pend: "pending_transfers st (remove_all ''confirm_'' data) = Some td"
    and diff: "sender_row td \<noteq> target_row td"
  shows "\<exists>sb tb.
      py_int (c_balance (row_at (sheet st) (sender_row td))) = Some sb \<and>
      py_int (c_balance (row_at (sheet st) (target_row td))) = Some tb \<and>
      amount td \<le> sb \<and> sender_id td = user_id usr \<and>
      py_int (c_balance (row_at (sheet st') (sender_row td))) = Some (sb - amount td) \<and>
      py_int (c_balance (row_at (sheet st') (target_row td))) = Some (tb + amount td) \<and>
      c_tx (row_at (sheet st') (sender_row td)) =
        prepend_tx (now 1 @ '' - '' @ CURRENCY @ py_str (amount td) @ '' '' @ target_name td)
          (c_tx (row_at (sheet st) (sender_row td))) \<and>
      c_tx (row_at (sheet st') (target_row td)) =
        prepend_tx (now 3 @ '' + '' @ CURRENCY @ py_str (amount td) @ '' ''
            @ c_name (row_at (sheet st) (sender_row td)))
          (c_tx (row_at (sheet st) (target_row td))) \<and>
      (LF \<notin> set (now 1) \<and> LF \<notin> set (target_name td) \<longrightarrow>
         length (tx_list (c_tx (row_at (sheet st') (sender_row td)))) =
           Suc (length (tx_list (c_tx (row_at (sheet st) (sender_row td)))))) \<and>
      (LF \<notin> set (now 3) \<and> LF \<notin> set (c_name (row_at (sheet st) (sender_row td))) \<longrightarrow>
         length (tx_list (c_tx (row_at (sheet st') (target_row td)))) =
           Suc (length (tx_list (c_tx (row_at (sheet st) (target_row td))))))"
proof -
  from ok conf have "confirm_transfer st usr (remove_all ''confirm_'' data) now = (Ok, st')"
    by (simp add: button_callback_confirm)
  from confirm_transfer_Ok_D [OF this pend diff] obtain sb tb where
    own: "sender_id td = user_id usr"
    and sb: "py_int (c_balance (row_at (sheet st) (sender_row td))) = Some sb"
    and tb: "py_int (c_balance (row_at (sheet st) (target_row td))) = Some tb"
    and enough: "amount td \<le> sb"
    and srow: "row_at (sheet st') (sender_row td) = (row_at (sheet st) (sender_row td))
        \<lparr>c_balance := py_str (sb - amount td), c_updated := now 0,
         c_tx := prepend_tx (now 1 @ '' - '' @ CURRENCY @ py_str (amount td) @ '' '' @ target_name td)
                  (c_tx (row_at (sheet st) (sender_row td)))\<rparr>"
    and trow: "row_at (sheet st') (target_row td) = (row_at (sheet st) (target_row td))
        \<lparr>c_balance := py_str (tb + amount td), c_updated := now 2,
         c_tx := prepend_tx (now 3 @ '' + '' @ CURRENCY @ py_str (amount td) @ '' ''
                    @ c_name (row_at (sheet st) (sender_row td)))
                  (c_tx (row_at (sheet st) (target_row td)))\<rparr>"
    by blast
  have cnt_s: "length (tx_list (c_tx (row_at (sheet st') (sender_row td)))) =
           Suc (length (tx_list (c_tx (row_at (sheet st) (sender_row td)))))"
    if "LF \<notin> set (now 1)" "LF \<notin> set (target_name td)"
    using that tx_list_prepend [of "now 1 @ '' - '' @ CURRENCY @ py_str (amount td) @ '' '' @ target_name td"]
    by (simp add: srow LF_notin_py_str LF_notin_CURRENCY LF_neq)
  have cnt_t: "length (tx_list (c_tx (row_at (sheet st') (target_row td)))) =
           Suc (length (tx_list (c_tx (row_at (sheet st) (target_row td)))))"
    if "LF \<notin> set (now 3)" "LF \<notin> set (c_name (row_at (sheet st) (sender_row td)))"
    using that tx_list_prepend [of "now 3 @ '' + '' @ CURRENCY @ py_str (amount td) @ '' ''
        @ c_name (row_at (sheet st) (sender_row td))"]
    by (simp add: trow LF_notin_py_str LF_notin_CURRENCY LF_neq)
  show ?thesis
    using own sb tb enough cnt_s cnt_t
    by (intro exI [of _ sb] exI [of _ tb]) (simp add: srow trow py_int_py_str)
qed

theorem transfer_confirm_moves_amount_witness:
  "fst (button_callback ex_proposed ex_ava ex_confirm ex_now) = Ok \<and>
   py_int (c_balance (row_at (sheet ex_proposed) 2)) = Some 500 \<and>
   py_int (c_balance (row_at (sheet ex_proposed) 3)) = Some 0 \<and>
   py_int (c_balance (row_at (sheet (snd (button_callback ex_proposed ex_ava ex_confirm ex_now))) 2))
     = Some 300 \<and>
   py_int (c_balance (row_at (sheet (snd (button_callback ex_proposed ex_ava ex_confirm ex_now))) 3))
     = Some 200 \<and>
   length (tx_list (c_tx (row_at (sheet (snd (button_callback ex_proposed ex_ava ex_confirm ex_now))) 2)))
     = 2 \<and>
   length (tx_list (c_tx (row_at (sheet (snd (button_callback ex_proposed ex_ava ex_confirm ex_now))) 3)))
     = 1"
proof -
  define st' where "st' = snd (button_callback ex_proposed ex_ava ex_confirm ex_now)"
  have out: "fst (button_callback ex_proposed ex_ava ex_confirm ex_now) = Ok"
    by code_simp
  then have ok: "button_callback ex_proposed ex_ava ex_confirm ex_now = (Ok, st')"
    by (simp add: st'_def prod_eq_iff)
  have conf: "startswith ex_confirm ''confirm_''"
    by (simp add: startswith_def ex_confirm_def)
  have pend: "pending_transfers ex_proposed (remove_all ''confirm_'' ex_confirm) = Some ex_pending"
    by (simp add: ex_proposed_def ex_confirm_def startswith_def)
  have diff: "sender_row ex_pending \<noteq> target_row ex_pending"
    by (simp add: ex_pending_def)
  have sb: "py_int (c_balance (row_at (sheet ex_proposed) 2)) = Some 500"
    and tb: "py_int (c_balance (row_at (sheet ex_proposed) 3)) = Some 0"
    and cnt2: "length (tx_list (c_tx (row_at (sheet ex_proposed) 2))) = 1"
    and cnt3: "length (tx_list (c_tx (row_at (sheet ex_proposed) 3))) = 0"
    and lf: "LF \<notin> set (ex_now 1)" "LF \<notin> set (ex_now 3)" "LF \<notin> set (target_name ex_pending)"
      "LF \<notin> set (c_name (row_at (sheet ex_proposed) 2))"
    by code_simp+
  have rows: "sender_row ex_pending = 2" "target_row ex_pending = 3" "amount ex_pending = 200"
    by (simp_all add: ex_pending_def)
  from transfer_confirm_moves_amount [OF ok conf pend diff] obtain sb' tb' where
    r1: "py_int (c_balance (row_at (sheet ex_proposed) (sender_row ex_pending))) = Some sb'"
    and r2: "py_int (c_balance (row_at (sheet ex_proposed) (target_row ex_pending))) = Some tb'"
    and r3: "py_int (c_balance (row_at (sheet st') (sender_row ex_pending)))
               = Some (sb' - amount ex_pending)"
    and r4: "py_int (c_balance (row_at (sheet st') (target_row ex_pending)))
               = Some (tb' + amount ex_pending)"
    and r5: "LF \<notin> set (ex_now 1) \<and> LF \<notin> set (target_name ex_pending) \<longrightarrow>
         length (tx_list (c_tx (row_at (sheet st') (sender_row ex_pending)))) =
           Suc (length (tx_list (c_tx (row_at (sheet ex_proposed) (sender_row ex_pending)))))"
    and r6: "LF \<notin> set (ex_now 3)
         \<and> LF \<notin> set (c_name (row_at (sheet ex_proposed) (sender_row ex_pending))) \<longrightarrow>
         length (tx_list (c_tx (row_at (sheet st') (target_row ex_pending)))) =
           Suc (length (tx_list (c_tx (row_at (sheet ex_proposed) (target_row ex_pending)))))"
    by blast
  from r1 r2 sb tb have "sb' = 500" "tb' = 0" by (simp_all add: rows)
  with r3 r4 have bal: "py_int (c_balance (row_at (sheet st') 2)) = Some 300"
      "py_int (c_balance (row_at (sheet st') 3)) = Some 200"
    by (simp_all add: rows)
  from r5 lf cnt2 have l2: "length (tx_list (c_tx (row_at (sheet st') 2))) = 2"
    by (simp add: rows)
  from r6 lf cnt3 have l3: "length (tx_list (c_tx (row_at (sheet st') 3))) = 1"
    by (simp add: rows)
  from out sb tb bal l2 l3 show ?thesis
    by (simp add: st'_def)
qed

lemma c_contrib_update_row:
  assumes that: "\<And>a. c_contrib (f a) = c_contrib a"
  shows "c_contrib (row_at (update_row r f sh) r') = c_contrib (row_at sh r')"
proof (cases "r' = r")
  case True
  show ?thesis
  proof (cases "1 \<le> r")
    case True
    with \<open>r' = r\<close> that show ?thesis by (simp add: row_at_update_row_same)
  next
    case False
    then show ?thesis by (simp add: update_row_def)
  qed
next
  case False
  then show ?thesis by (simp add: row_at_update_row_other)
qed

text \<open>
  C3. When the sender presses confirm on a pending transfer and the balance read from
  the sender's row is below the amount, the answer is that of insufficient funds and the
  proposal is removed from \<open>pending_transfers\<close>; whoever presses the same button
  again is told that the transfer has expired.
\<close>

theorem confirm_insufficient_then_expired:
  assumes conf: "startswith data ''confirm_''"
    and pend: "pending_transfers st (remove_all ''confirm_'' data) = Some td"
    and own: "sender_id td = user_id usr"
    and bal: "py_int (c_balance (row_at (sheet st) (sender_row td))) = Some sb"
    and short: "sb < amount td"
  shows "button_callback st usr data now =
           (InsufficientFunds,
            st\<lparr>pending_transfers := (pending_transfers st)(remove_all ''confirm_'' data := None)\<rparr>) \<and>
         pending_transfers (snd (button_callback st usr data now)) (remove_all ''confirm_'' data) = None \<and>
         button_callback (snd (button_callback st usr data now)) usr' data now' =
           (Expired, snd (button_callback st usr data now))"
proof -
  have first: "button_callback st usr data now =
      (InsufficientFunds,
       st\<lparr>pending_transfers := (pending_transfers st)(remove_all ''confirm_'' data := None)\<rparr>)"
    using conf pend own bal short
    by (simp add: button_callback_confirm confirm_transfer_def)
  then show ?thesis
    using conf by (simp add: button_callback_confirm confirm_transfer_def)
qed

theorem confirm_insufficient_then_expired_witness:
  "fst (button_callback ex_drained ex_ava ex_confirm ex_now) = InsufficientFunds \<and>
   pending_transfers (snd (button_callback ex_drained ex_ava ex_confirm ex_now))
     ''42_7_200_1762290900.5'' = None \<and>
   fst (button_callback (snd (button_callback ex_drained ex_ava ex_confirm ex_now))
     ex_ava ex_confirm ex_now) = Expired"
proof -
  have conf: "startswith ex_confirm ''confirm_''"
    by (simp add: startswith_def ex_confirm_def)
  have tid: "remove_all ''confirm_'' ex_confirm = ''42_7_200_1762290900.5''"
    by (simp add: ex_confirm_def startswith_def)
  have pend: "pending_transfers ex_drained (remove_all ''confirm_'' ex_confirm) = Some ex_pending"
    by (simp add: tid ex_drained_def ex_proposed_def)
  have own: "sender_id ex_pending = user_id ex_ava"
    by (simp add: ex_pending_def ex_ava_def)
  have bal: "py_int (c_balance (row_at (sheet ex_drained) (sender_row ex_pending))) = Some 100"
    by code_simp
  have short: "(100::int) < amount ex_pending"
    by (simp add: ex_pending_def)
  note run = confirm_insufficient_then_expired [OF conf pend own bal short,
      where now = ex_now and usr' = ex_ava and now' = ex_now]
  from run have c1: "fst (button_callback ex_drained ex_ava ex_confirm ex_now) = InsufficientFunds"
    by simp
  from run have c2: "pending_transfers (snd (button_callback ex_drained ex_ava ex_confirm ex_now))
      ''42_7_200_1762290900.5'' = None"
    unfolding tid by blast
  from run have c3: "fst (button_callback (snd (button_callback ex_drained ex_ava ex_confirm ex_now))
      ex_ava ex_confirm ex_now) = Expired"
    by (metis fst_conv)
  from c1 c2 c3 show ?thesis
    by blast
qed

text \<open>
  C5. When the confirm button or the cancel button of a pending transfer is pressed by a
  user whose id is not the sender id of the proposal, the answer is that this is not
  their transfer, and the state, with the proposal in \<open>pending_transfers\<close>, is as
  before.
\<close>

theorem foreign_confirm_or_cancel_rejected:
  assumes other: "sender_id td \<noteq> user_id usr"
  shows "(startswith data ''confirm_'' \<and>
            pending_transfers st (remove_all ''confirm_'' data) = Some td \<longrightarrow>
          button_callback st usr data now = (NotOwner, st) \<and>
          pending_transfers (snd (button_callback st usr data now)) (remove_all ''confirm_'' data)
            = Some td) \<and>
         (startswith data ''cancel_'' \<and>
            pending_transfers st (remove_all ''cancel_'' data) = Some td \<longrightarrow>
          button_callback st usr data now = (NotOwner, st) \<and>
          pending_transfers (snd (button_callback st usr data now)) (remove_all ''cancel_'' data)
            = Some td)"
  using other
  by (auto simp: button_callback_confirm button_callback_cancel confirm_transfer_def
      cancel_transfer_def)

theorem foreign_confirm_or_cancel_rejected_witness:
  "button_callback ex_proposed ex_bob ex_confirm ex_now = (NotOwner, ex_proposed) \<and>
   button_callback ex_proposed ex_bob ex_cancel ex_now = (NotOwner, ex_proposed) \<and>
   pending_transfers ex_proposed ''42_7_200_1762290900.5'' = Some ex_pending"
proof -
  have other: "sender_id ex_pending \<noteq> user_id ex_bob"
    by (simp add: ex_pending_def ex_bob_def)
  have conf: "startswith ex_confirm ''confirm_''"
    and canc: "startswith ex_cancel ''cancel_''"
    by (simp_all add: startswith_def ex_confirm_def ex_cancel_def)
  have tid: "remove_all ''confirm_'' ex_confirm = ''42_7_200_1762290900.5''"
     "remove_all ''cancel_'' ex_cancel = ''42_7_200_1762290900.5''"
    by (simp_all add: ex_confirm_def ex_cancel_def startswith_def)
  have pend: "pending_transfers ex_proposed ''42_7_200_1762290900.5'' = Some ex_pending"
    by (simp add: ex_proposed_def)
  from foreign_confirm_or_cancel_rejected [OF other, where data = ex_confirm and st = ex_proposed
      and now = ex_now]
    foreign_confirm_or_cancel_rejected [OF other, where data = ex_cancel and st = ex_proposed
      and now = ex_now]
    conf canc pend
  show ?thesis
    by (simp add: tid)
qed

text \<open>
  C9. A confirmation that ends with the message of success leaves column 8, the
  contributions, of every row as it was, so also of the sender's row and of the target's
  row: the transfer is booked in the balances and the logs only.
\<close>

theorem transfer_leaves_contributions:
  assumes ok: "button_callback st usr data now = (Ok, st')"
    and conf: "startswith data ''confirm_''"
    and pend: "pending_transfers st (remove_all ''confirm_'' data) = Some td"
  shows "c_contrib (row_at (sheet st') (sender_row td)) = c_contrib (row_at (sheet st) (sender_row td)) \<and>
         c_contrib (row_at (sheet st') (target_row td)) = c_contrib (row_at (sheet st) (target_row td)) \<and>
         (\<forall>r. c_contrib (row_at (sheet st') r) = c_contrib (row_at (sheet st) r))"
proof -
  from ok conf have "confirm_transfer st usr (remove_all ''confirm_'' data) now = (Ok, st')"
    by (simp add: button_callback_confirm)
  with pend have "\<forall>r. c_contrib (row_at (sheet st') r) = c_contrib (row_at (sheet st) r)"
    by (auto simp: confirm_transfer_def Let_def c_contrib_update_row split: option.splits if_splits)
  then show ?thesis by simp
qed

theorem transfer_leaves_contributions_witness:
  "c_contrib (row_at (sheet (snd (button_callback ex_proposed ex_ava ex_confirm ex_now))) 2)
     = JsonDict [(''root'', 500)] \<and>
   c_contrib (row_at (sheet (snd (button_callback ex_proposed ex_ava ex_confirm ex_now))) 3)
     = Blank"
proof -
  define st' where "st' = snd (button_callback ex_proposed ex_ava ex_confirm ex_now)"
  have "fst (button_callback ex_proposed ex_ava ex_confirm ex_now) = Ok"
    by code_simp
  then have ok: "button_callback ex_proposed ex_ava ex_confirm ex_now = (Ok, st')"
    by (simp add: st'_def prod_eq_iff)
  have conf: "startswith ex_confirm ''confirm_''"
    by (simp add: startswith_def ex_confirm_def)
  have pend: "pending_transfers ex_proposed (remove_all ''confirm_'' ex_confirm) = Some ex_pending"
    by (simp add: ex_proposed_def ex_confirm_def startswith_def)
  have old: "c_contrib (row_at (sheet ex_proposed) 2) = JsonDict [(''root'', 500)]"
      "c_contrib (row_at (sheet ex_proposed) 3) = Blank"
    by (simp_all add: ex_proposed_def ex_state_def ex_sheet_def row_at_def)
  from transfer_leaves_contributions [OF ok conf pend] old
  show ?thesis
    by (simp add: st'_def [symmetric])
qed

text \<open>
  C10. When a press of a button is answered with insufficient funds, it was a confirm
  button, nothing was written to the sheet (every row, with its balance, time stamp,
  log and contributions, is as before), and the one change of the state is that the
  proposal is gone from \<open>pending_transfers\<close>.
\<close>

theorem insufficient_confirm_writes_nothing:
  assumes "button_callback st usr data now = (InsufficientFunds, st')"
  shows "startswith data ''confirm_'' \<and>
         sheet st' = sheet st \<and>
         (\<forall>r. row_at (sheet st') r = row_at (sheet st) r) \<and>
         st' = st\<lparr>pending_transfers := (pending_transfers st)(remove_all ''confirm_'' data := None)\<rparr>"
  using assms
  by (auto simp: button_callback_def confirm_transfer_def cancel_transfer_def Let_def
      split: option.splits if_splits)

theorem insufficient_confirm_writes_nothing_witness:
  "fst (button_callback ex_drained ex_ava ex_confirm ex_now) = InsufficientFunds \<and>
   sheet (snd (button_callback ex_drained ex_ava ex_confirm ex_now)) = sheet ex_drained \<and>
   row_at (sheet (snd (button_callback ex_drained ex_ava ex_confirm ex_now))) 2
     = row_at (sheet ex_drained) 2"
proof -
  define st' where "st' = snd (button_callback ex_drained ex_ava ex_confirm ex_now)"
  have out: "fst (button_callback ex_drained ex_ava ex_confirm ex_now) = InsufficientFunds"
    by code_simp
  then have "button_callback ex_drained ex_ava ex_confirm ex_now = (InsufficientFunds, st')"
    by (simp add: st'_def prod_eq_iff)
  from insufficient_confirm_writes_nothing [OF this] out
  show ?thesis
    by (simp add: st'_def [symmetric])
qed

section \<open>Finding a row\<close>

lemma find_first_Some:
  "find_first P xs = Some r \<Longrightarrow> 1 \<le> r \<and> r \<le> length xs \<and> P (xs ! (r - 1))"
proof (induction xs arbitrary: r)
  case Nil
  then show ?case by simp
next
  case (Cons x xs)
  show ?case
  proof (cases "P x")
    case True
    with Cons.prems show ?thesis by simp
  next
    case False
    with Cons.prems obtain r' where r': "find_first P xs = Some r'" "r = Suc r'"
      by auto
    from Cons.IH [OF r'(1)] r'(2) show ?thesis
      by (cases r') auto
  qed
qed

lemma col_values_take: "col_values col sh = take (length (col_values col sh)) (map col sh)"
proof -
  have "rev (map col sh) = takeWhile (\<lambda>v. v = []) (rev (map col sh))
          @ dropWhile (\<lambda>v. v = []) (rev (map col sh))"
    by simp
  then have "map col sh = rev (dropWhile (\<lambda>v. v = []) (rev (map col sh)))
          @ rev (takeWhile (\<lambda>v. v = []) (rev (map col sh)))"
    by (metis rev_append rev_rev_ident)
  then have "take (length (col_values col sh)) (map col sh) = col_values col sh"
    unfolding col_values_def by (metis append_eq_conv_conj)
  then show ?thesis by simp
qed

lemma length_col_values: "length (col_values col sh) \<le> length sh"
  by (simp add: col_values_def) (metis length_dropWhile_le length_map length_rev)

lemma col_values_nth:
  assumes "i < length (col_values col sh)"
  shows "col_values col sh ! i = col (sh ! i)"
proof -
  from assms length_col_values [of col sh] have "i < length sh" by simp
  with assms show ?thesis
    by (subst col_values_take) simp
qed

lemma find_user_row_Some:
  assumes "find_user_row sh uid = Some r"
  shows "1 \<le> r \<and> r \<le> length sh \<and> c_id (row_at sh r) = py_str uid"
proof -
  from find_first_Some [OF assms [unfolded find_user_row_def]]
  have r: "1 \<le> r" "r \<le> length (col_values c_id sh)" "col_values c_id sh ! (r - 1) = py_str uid"
    by simp_all
  with length_col_values [of c_id sh] col_values_nth [of "r - 1" c_id sh]
  show ?thesis
    by (simp add: row_at_def)
qed


section \<open>Clearing and creating accounts\<close>

text \<open>
  C6. When a user who may modify replies \<open>/clear\<close> to a member with an account, in
  whatever state that account is, the handler ends well and the row of the account is
  the former row with balance \<open>0\<close>, the time stamp of the clock, an empty log and an
  empty column 8: the balance reads as 0, the transaction view has no entry, the
  breakdown is empty, and member id, name, handle and link are as before. The other
  rows, the pending transfers and the managers are untouched.
\<close>

theorem clear_resets_account:
  assumes auth: "can_modify st (effective_user upd)"
    and reply: "reply_to_message upd = Some target"
    and found: "find_user_row (sheet st) (user_id target) = Some r"
  shows "\<exists>st'. clear st upd now = (Ok, st') \<and>
      row_at (sheet st') r = (row_at (sheet st) r)
        \<lparr>c_balance := ''0'', c_updated := now 0, c_tx := [], c_contrib := Blank\<rparr> \<and>
      py_int (c_balance (row_at (sheet st') r)) = Some 0 \<and>
      c_updated (row_at (sheet st') r) = now 0 \<and>
      tx_list (c_tx (row_at (sheet st') r)) = [] \<and>
      c_contrib (row_at (sheet st') r) = Blank \<and>
      get_contribution_breakdown (sheet st') r = [] \<and>
      c_id (row_at (sheet st') r) = c_id (row_at (sheet st) r) \<and>
      c_name (row_at (sheet st') r) = c_name (row_at (sheet st) r) \<and>
      c_username (row_at (sheet st') r) = c_username (row_at (sheet st) r) \<and>
      c_link (row_at (sheet st') r) = c_link (row_at (sheet st) r) \<and>
      (\<forall>r'. r' \<noteq> r \<longrightarrow> row_at (sheet st') r' = row_at (sheet st) r') \<and>
      pending_transfers st' = pending_transfers st \<and>
      ADMINS st' = ADMINS st \<and> admins_json st' = admins_json st"
proof -
  from find_user_row_Some [OF found] have r: "1 \<le> r" by simp
  have zero: "py_int ''0'' = Some 0"
    using py_int_py_str [of 0] by (simp add: py_str_def str_nat.simps digit_char_def)
  from auth reply found r zero show ?thesis
    by (simp add: clear_def Let_def row_at_update_row_same row_at_update_row_other
        tx_list_def get_contribution_breakdown_def)
qed

theorem clear_resets_account_witness:
  "fst (clear ex_state ex_to_ava ex_now) = Ok \<and>
   row_at (sheet (snd (clear ex_state ex_to_ava ex_now))) 2 =
     \<lparr>c_id = ''42'', c_name = ''Ava'', c_username = ''@ava'', c_link = ''ava'',
      c_balance = ''0'', c_updated = ''11-04-2026, 09:15 PM'', c_tx = [], c_contrib = Blank\<rparr> \<and>
   get_contribution_breakdown (sheet (snd (clear ex_state ex_to_ava ex_now))) 2 = []"
proof -
  have auth: "can_modify ex_state (effective_user ex_to_ava)"
    by (simp add: can_modify_def ex_to_ava_def ex_owner_def OWNER_ID_def)
  have reply: "reply_to_message ex_to_ava = Some ex_ava"
    by (simp add: ex_to_ava_def)
  have found: "find_user_row (sheet ex_state) (user_id ex_ava) = Some 2"
    by code_simp
  have old: "row_at (sheet ex_state) 2 =
     \<lparr>c_id = ''42'', c_name = ''Ava'', c_username = ''@ava'', c_link = ''ava'',
       c_balance = ''500'', c_updated = ''11-01-2026, 10:00 AM'',
       c_tx = ''11-01-2026, 10:00 AM + 500 root'', c_contrib = JsonDict [(''root'', 500)]\<rparr>"
    by (simp add: row_at_def ex_state_def ex_sheet_def)
  from clear_resets_account [OF auth reply found, of ex_now] obtain st' where
    run: "clear ex_state ex_to_ava ex_now = (Ok, st')"
    and row: "row_at (sheet st') 2 = (row_at (sheet ex_state) 2)
        \<lparr>c_balance := ''0'', c_updated := ex_now 0, c_tx := [], c_contrib := Blank\<rparr>"
    and brk: "get_contribution_breakdown (sheet st') 2 = []"
    by blast
  from run row brk show ?thesis
    by (simp add: old ex_now_def)
qed

text \<open>
  C8. When a user who may modify replies \<open>/new\<close> to a member: if \<open>find_user_row\<close>
  finds a row with the member's id, the answer is that the account exists and the state
  is as before; otherwise the sheet is the former sheet with exactly one row appended,
  which carries the member's id, the balance \<open>0\<close>, the time stamp of the clock, an
  empty log and an empty column 8.
\<close>

theorem new_creates_account_once:
  assumes auth: "can_modify st (effective_user upd)"
    and reply: "reply_to_message upd = Some target"
  shows "(find_user_row (sheet st) (user_id target) \<noteq> None \<longrightarrow>
            new st upd now = (AlreadyExists, st)) \<and>
         (find_user_row (sheet st) (user_id target) = None \<longrightarrow>
            (\<exists>row. new st upd now = (Ok, st\<lparr>sheet := sheet st @ [row]\<rparr>) \<and>
               c_id row = py_str (user_id target) \<and>
               c_balance row = ''0'' \<and> py_int (c_balance row) = Some 0 \<and>
               c_updated row = now 0 \<and>
               c_tx row = [] \<and> tx_list (c_tx row) = [] \<and>
               c_contrib row = Blank \<and>
               length (sheet (snd (new st upd now))) = Suc (length (sheet st)) \<and>
               row_at (sheet (snd (new st upd now))) (Suc (length (sheet st))) = row \<and>
               (\<forall>r. r \<le> length (sheet st) \<longrightarrow>
                  row_at (sheet (snd (new st upd now))) r = row_at (sheet st) r)))"
proof -
  have zero: "py_int ''0'' = Some 0"
    using py_int_py_str [of 0] by (simp add: py_str_def str_nat.simps digit_char_def)
  from auth reply zero show ?thesis
    by (auto simp: new_def Let_def tx_list_def row_at_def nth_append)
qed

theorem new_creates_account_once_witness:
  "new ex_state ex_to_ava ex_now = (AlreadyExists, ex_state) \<and>
   fst (new ex_state ex_to_cat ex_now) = Ok \<and>
   length (sheet (snd (new ex_state ex_to_cat ex_now))) = 4 \<and>
   c_balance (row_at (sheet (snd (new ex_state ex_to_cat ex_now))) 4) = ''0'' \<and>
   c_contrib (row_at (sheet (snd (new ex_state ex_to_cat ex_now))) 4) = Blank"
proof -
  have auth: "can_modify ex_state (effective_user ex_to_ava)"
      "can_modify ex_state (effective_user ex_to_cat)"
    by (simp_all add: can_modify_def ex_to_ava_def ex_to_cat_def ex_owner_def OWNER_ID_def)
  have reply: "reply_to_message ex_to_ava = Some ex_ava" "reply_to_message ex_to_cat = Some ex_cat"
    by (simp_all add: ex_to_ava_def ex_to_cat_def)
  have found: "find_user_row (sheet ex_state) (user_id ex_ava) \<noteq> None"
    by code_simp
  have fresh: "find_user_row (sheet ex_state) (user_id ex_cat) = None"
    by code_simp
  have len: "length (sheet ex_state) = 3"
    by (simp add: ex_state_def ex_sheet_def)
  from new_creates_account_once [OF auth(1) reply(1), of ex_now] found
  have a: "new ex_state ex_to_ava ex_now = (AlreadyExists, ex_state)"
    by blast
  from new_creates_account_once [OF auth(2) reply(2), of ex_now] fresh obtain row where
    run: "new ex_state ex_to_cat ex_now = (Ok, ex_state\<lparr>sheet := sheet ex_state @ [row]\<rparr>)"
    and bal: "c_balance row = ''0''" and con: "c_contrib row = Blank"
    and n: "length (sheet (snd (new ex_state ex_to_cat ex_now))) = Suc (length (sheet ex_state))"
    and at: "row_at (sheet (snd (new ex_state ex_to_cat ex_now))) (Suc (length (sheet ex_state))) = row"
    by blast
  from a run bal con n at show ?thesis
    by (simp add: len)
qed

section \<open>Adding and deducting\<close>

lemma add_write_Ok_D:
  assumes "add_write st row n admin now = (Ok, st')"
  shows "\<exists>b d. py_int (c_balance (row_at (sheet st) row)) = Some b \<and>
               load_contributions (c_contrib (row_at (sheet st) row)) = Some d"
  using assms
  by (auto simp: add_write_def Let_def c_contrib_update_row split: option.splits)

lemma use_write_Ok_D:
  assumes "use_write st row n admin now = (Ok, st')"
  shows "\<exists>b d. py_int (c_balance (row_at (sheet st) row)) = Some b \<and>
               load_contributions (c_contrib (row_at (sheet st) row)) = Some d"
  using assms
  by (auto simp: use_write_def Let_def c_contrib_update_row split: option.splits)

text \<open>What \<open>add\<close> writes once the balance and column 8 have been read.\<close>

lemma add_write_result:
  assumes bal: "py_int (c_balance (row_at (sheet st) row)) = Some b"
    and load: "load_contributions (c_contrib (row_at (sheet st) row)) = Some d"
  shows "\<exists>st'. add_write st row n admin now = (Ok, st') \<and>
      row_at (sheet st') row = (row_at (sheet st) row)
        \<lparr>c_balance := py_str (b + n), c_updated := now 0,
         c_tx := prepend_tx (now 1 @ '' + '' @ CURRENCY @ py_str n @ '' '' @ admin)
                   (c_tx (row_at (sheet st) row)),
         c_contrib := JsonDict (AList.update admin (get_or_zero d admin + n) d)\<rparr> \<and>
      (\<forall>r'. r' \<noteq> row \<longrightarrow> row_at (sheet st') r' = row_at (sheet st) r') \<and>
      pending_transfers st' = pending_transfers st \<and>
      ADMINS st' = ADMINS st \<and> admins_json st' = admins_json st"
proof -
  from bal have r: "1 \<le> row" using readable_row_pos by blast
  from bal load r show ?thesis
    by (simp add: add_write_def Let_def c_contrib_update_row row_at_update_row_same
        row_at_update_row_other)
qed

text \<open>What \<open>use\<close> writes once the balance and column 8 have been read.\<close>

lemma use_write_result:
  assumes bal: "py_int (c_balance (row_at (sheet st) row)) = Some b"
    and load: "load_contributions (c_contrib (row_at (sheet st) row)) = Some d"
  shows "\<exists>st'. use_write st row n admin now = (Ok, st') \<and>
      row_at (sheet st') row = (row_at (sheet st) row)
        \<lparr>c_balance := py_str (b - n), c_updated := now 0,
         c_tx := prepend_tx (now 1 @ '' - '' @ CURRENCY @ py_str n @ '' '' @ admin)
                   (c_tx (row_at (sheet st) row)),
         c_contrib :=
           (case map_of d admin of
              None \<Rightarrow> c_contrib (row_at (sheet st) row)
            | Some old \<Rightarrow>
                JsonDict (if old - n \<le> 0
                          then AList.delete admin (AList.update admin (old - n) d)
                          else AList.update admin (old - n) d))\<rparr> \<and>
      (\<forall>r'. r' \<noteq> row \<longrightarrow> row_at (sheet st') r' = row_at (sheet st) r') \<and>
      pending_transfers st' = pending_transfers st \<and>
      ADMINS st' = ADMINS st \<and> admins_json st' = admins_json st"
proof -
  from bal have r: "1 \<le> row" using readable_row_pos by blast
  from bal load r show ?thesis
    by (cases "map_of d admin")
       (simp_all add: use_write_def Let_def c_contrib_update_row row_at_update_row_same
        row_at_update_row_other)
qed





section \<open>Text that is no integer\<close>






section \<open>Validation of amounts\<close>



section \<open>The managers across a restart\<close>

text \<open>A promotion or demotion that succeeds writes the list of managers to the file.\<close>

lemma prom_saves: "prom st upd = (Ok, st') \<Longrightarrow> admins_json st' = Some (ADMINS st')"
  by (auto simp: prom_def save_admins_def split: if_splits option.splits)

lemma dem_saves: "dem st upd = (Ok, st') \<Longrightarrow> admins_json st' = Some (ADMINS st')"
  by (auto simp: dem_def save_admins_def split: if_splits option.splits)

text \<open>The start of the process never looks at the file.\<close>

lemma startup_ignores_file: "ADMINS (startup sh file) = [Some ''reviosa'', Some ''zaonoror'']"
  by (simp add: startup_def)

text \<open>
  C4. The owner promotes Ava: the file then lists her. After a restart on that file the
  list of managers is the literal of the module again, Ava is not in it and may not
  modify; the list at the start is not the list that was saved.
\<close>

theorem restart_forgets_promotion:
  "fst (prom (startup ex_sheet None) ex_to_ava) = Ok \<and>
   ADMINS (snd (prom (startup ex_sheet None) ex_to_ava))
     = [Some ''reviosa'', Some ''zaonoror'', Some ''ava''] \<and>
   admins_json (snd (prom (startup ex_sheet None) ex_to_ava))
     = Some [Some ''reviosa'', Some ''zaonoror'', Some ''ava''] \<and>
   ADMINS (startup ex_sheet (admins_json (snd (prom (startup ex_sheet None) ex_to_ava))))
     = [Some ''reviosa'', Some ''zaonoror''] \<and>
   can_modify (snd (prom (startup ex_sheet None) ex_to_ava)) ex_ava \<and>
   \<not> can_modify (startup ex_sheet (admins_json (snd (prom (startup ex_sheet None) ex_to_ava)))) ex_ava"
  by (simp add: prom_def startup_def save_admins_def can_modify_def ex_to_ava_def ex_owner_def
      ex_ava_def OWNER_ID_def)


section \<open>Contributions\<close>

lemma add_Ok_D:
  assumes "add st upd now = (Ok, st')"
  shows "\<exists>row n. resolves st upd row n \<and>
           add_write st row n (first_name (effective_user upd)) now = (Ok, st')"
  using assms
  by (auto simp: add_def resolves_def split: if_splits option.splits)

lemma use_Ok_D:
  assumes "use st upd now = (Ok, st')"
  shows "\<exists>row n. resolves st upd row n \<and>
           use_write st row n (first_name (effective_user upd)) now = (Ok, st')"
  using assms
  by (auto simp: use_def resolves_def split: if_splits option.splits)

text \<open>
  C2, as the code has it. Let \<open>d\<close> be the contributions of the target row before the
  command and \<open>actor\<close> the first name of the caller. After an \<open>add\<close> that ends well,
  if the actor's former value (0 without an entry) plus the amount is positive, the
  contributions are \<open>d\<close> with that sum for the actor. After a \<open>use\<close> that ends
  well: if the actor has no entry, column 8 is as before; if the actor has the entry
  \<open>old\<close>, the contributions are \<open>d\<close> with \<open>old - amount\<close> for the actor, or
  without the actor when that is at most 0; so the actor's entry after a \<open>use\<close>, if
  there is one, is positive.
\<close>

theorem contributions_after_add_and_use:
  "(add st upd now = (Ok, st') \<longrightarrow>
      (\<exists>row n d. resolves st upd row n \<and>
         load_contributions (c_contrib (row_at (sheet st) row)) = Some d \<and>
         (0 < get_or_zero d (first_name (effective_user upd)) + n \<longrightarrow>
            (\<exists>d'. c_contrib (row_at (sheet st') row) = JsonDict d' \<and>
               map_of d' = (map_of d)(first_name (effective_user upd) \<mapsto>
                  get_or_zero d (first_name (effective_user upd)) + n) \<and>
               map_of d' = map_of (spec_contributions d (first_name (effective_user upd)) n))))) \<and>
   (use st upd now = (Ok, st') \<longrightarrow>
      (\<exists>row n d. resolves st upd row n \<and>
         load_contributions (c_contrib (row_at (sheet st) row)) = Some d \<and>
         (case map_of d (first_name (effective_user upd)) of
            None \<Rightarrow> c_contrib (row_at (sheet st') row) = c_contrib (row_at (sheet st) row)
          | Some old \<Rightarrow>
              (\<exists>d'. c_contrib (row_at (sheet st') row) = JsonDict d' \<and>
                 map_of d' = (if old - n \<le> 0
                              then (map_of d)(first_name (effective_user upd) := None)
                              else (map_of d)(first_name (effective_user upd) \<mapsto> old - n)) \<and>
                 map_of d' = map_of (spec_contributions d (first_name (effective_user upd)) (- n)))) \<and>
         (\<forall>d' v. load_contributions (c_contrib (row_at (sheet st') row)) = Some d' \<and>
            map_of d' (first_name (effective_user upd)) = Some v \<longrightarrow> 0 < v)))"
proof (intro conjI impI)
  define actor where "actor = first_name (effective_user upd)"
  assume "add st upd now = (Ok, st')"
  from add_Ok_D [OF this] obtain row n where res: "resolves st upd row n"
    and w: "add_write st row n actor now = (Ok, st')"
    by (auto simp: actor_def)
  from add_write_Ok_D [OF w] obtain b d
    where bal: "py_int (c_balance (row_at (sheet st) row)) = Some b"
      and load: "load_contributions (c_contrib (row_at (sheet st) row)) = Some d"
    by blast
  from add_write_result [OF bal load, of n actor now] w
  have new: "c_contrib (row_at (sheet st') row)
      = JsonDict (AList.update actor (get_or_zero d actor + n) d)"
    by auto
  have "\<exists>d'. c_contrib (row_at (sheet st') row) = JsonDict d' \<and>
               map_of d' = (map_of d)(actor \<mapsto> get_or_zero d actor + n) \<and>
               map_of d' = map_of (spec_contributions d actor n)"
    if "0 < get_or_zero d actor + n"
    using that new by (simp add: spec_contributions_def Let_def update_conv')
  with res load
  show "\<exists>row n d. resolves st upd row n \<and>
         load_contributions (c_contrib (row_at (sheet st) row)) = Some d \<and>
         (0 < get_or_zero d (first_name (effective_user upd)) + n \<longrightarrow>
            (\<exists>d'. c_contrib (row_at (sheet st') row) = JsonDict d' \<and>
               map_of d' = (map_of d)(first_name (effective_user upd) \<mapsto>
                  get_or_zero d (first_name (effective_user upd)) + n) \<and>
               map_of d' = map_of (spec_contributions d (first_name (effective_user upd)) n)))"
    unfolding actor_def by blast
next
  define actor where "actor = first_name (effective_user upd)"
  assume "use st upd now = (Ok, st')"
  from use_Ok_D [OF this] obtain row n where res: "resolves st upd row n"
    and w: "use_write st row n actor now = (Ok, st')"
    by (auto simp: actor_def)
  from use_write_Ok_D [OF w] obtain b d
    where bal: "py_int (c_balance (row_at (sheet st) row)) = Some b"
      and load: "load_contributions (c_contrib (row_at (sheet st) row)) = Some d"
    by blast
  from use_write_result [OF bal load, of n actor now] w
  have new: "c_contrib (row_at (sheet st') row) =
      (case map_of d actor of
         None \<Rightarrow> c_contrib (row_at (sheet st) row)
       | Some old \<Rightarrow>
           JsonDict (if old - n \<le> 0
                     then AList.delete actor (AList.update actor (old - n) d)
                     else AList.update actor (old - n) d))"
    by auto
  have shape: "(case map_of d actor of
            None \<Rightarrow> c_contrib (row_at (sheet st') row) = c_contrib (row_at (sheet st) row)
          | Some old \<Rightarrow>
              (\<exists>d'. c_contrib (row_at (sheet st') row) = JsonDict d' \<and>
                 map_of d' = (if old - n \<le> 0
                              then (map_of d)(actor := None)
                              else (map_of d)(actor \<mapsto> old - n)) \<and>
                 map_of d' = map_of (spec_contributions d actor (- n))))"
    using new
    by (auto simp: spec_contributions_def get_or_zero_def Let_def update_conv' delete_conv'
        split: option.splits)
  have pos: "0 < v"
    if "load_contributions (c_contrib (row_at (sheet st') row)) = Some d'"
      "map_of d' actor = Some v" for d' v
  proof (cases "map_of d actor")
    case None
    with new load that show ?thesis by simp
  next
    case (Some old)
    with new that show ?thesis
      by (auto simp: update_conv' delete_conv' split: if_splits)
  qed
  from res load shape pos
  show "\<exists>row n d. resolves st upd row n \<and>
         load_contributions (c_contrib (row_at (sheet st) row)) = Some d \<and>
         (case map_of d (first_name (effective_user upd)) of
            None \<Rightarrow> c_contrib (row_at (sheet st') row) = c_contrib (row_at (sheet st) row)
          | Some old \<Rightarrow>
              (\<exists>d'. c_contrib (row_at (sheet st') row) = JsonDict d' \<and>
                 map_of d' = (if old - n \<le> 0
                              then (map_of d)(first_name (effective_user upd) := None)
                              else (map_of d)(first_name (effective_user upd) \<mapsto> old - n)) \<and>
                 map_of d' = map_of (spec_contributions d (first_name (effective_user upd)) (- n)))) \<and>
         (\<forall>d' v. load_contributions (c_contrib (row_at (sheet st') row)) = Some d' \<and>
            map_of d' (first_name (effective_user upd)) = Some v \<longrightarrow> 0 < v)"
    unfolding actor_def by blast
qed

text \<open>
  The rule of the specification fails on the code twice. The owner, first name
  \<open>root\<close>, adds 0 to Bob, whose column 8 is empty: the code stores the entry 0 for
  \<open>root\<close>, where the rule deletes it. The owner deducts -5 from Bob: the code leaves
  column 8 empty, where the rule stores the entry 5 for \<open>root\<close>.
\<close>

theorem contributions_rule_counterexample:
  "fst (add ex_state \<lparr>effective_user = ex_owner, reply_to_message = Some ex_bob, args = [''0'']\<rparr>
     ex_now) = Ok \<and>
   c_contrib (row_at (sheet (snd (add ex_state
     \<lparr>effective_user = ex_owner, reply_to_message = Some ex_bob, args = [''0'']\<rparr> ex_now))) 3)
     = JsonDict [(''root'', 0)] \<and>
   spec_contributions [] ''root'' 0 = [] \<and>
   fst (use ex_state \<lparr>effective_user = ex_owner, reply_to_message = Some ex_bob, args = [''-5'']\<rparr>
     ex_now) = Ok \<and>
   c_contrib (row_at (sheet (snd (use ex_state
     \<lparr>effective_user = ex_owner, reply_to_message = Some ex_bob, args = [''-5'']\<rparr> ex_now))) 3)
     = Blank \<and>
   spec_contributions [] ''root'' (- (- 5)) = [(''root'', 5)]"
  by code_simp

theorem contributions_after_add_and_use_witness:
  "(\<exists>d'. c_contrib (row_at (sheet (snd (add ex_state
      \<lparr>effective_user = ex_owner, reply_to_message = Some ex_bob, args = [''500'']\<rparr> ex_now))) 3)
      = JsonDict d' \<and> map_of d' ''root'' = Some 500) \<and>
   (\<exists>d'. c_contrib (row_at (sheet (snd (use ex_state
      \<lparr>effective_user = ex_owner, reply_to_message = Some ex_ava, args = [''600'']\<rparr> ex_now))) 2)
      = JsonDict d' \<and> map_of d' ''root'' = None)"
proof -
  define credit where
    "credit = \<lparr>effective_user = ex_owner, reply_to_message = Some ex_bob, args = [''500'']\<rparr>"
  define debit where
    "debit = \<lparr>effective_user = ex_owner, reply_to_message = Some ex_ava, args = [''600'']\<rparr>"
  define st1 where "st1 = snd (add ex_state credit ex_now)"
  define st2 where "st2 = snd (use ex_state debit ex_now)"
  have "fst (add ex_state credit ex_now) = Ok" "fst (use ex_state debit ex_now) = Ok"
    unfolding credit_def debit_def by code_simp+
  then have ok: "add ex_state credit ex_now = (Ok, st1)" "use ex_state debit ex_now = (Ok, st2)"
    by (simp_all add: st1_def st2_def prod_eq_iff)
  have actor: "first_name (effective_user credit) = ''root''"
      "first_name (effective_user debit) = ''root''"
    by (simp_all add: credit_def debit_def ex_owner_def)
  have found: "find_user_row (sheet ex_state) (user_id ex_bob) = Some 3"
      "find_user_row (sheet ex_state) (user_id ex_ava) = Some 2"
      "py_int ''500'' = Some 500" "py_int ''600'' = Some 600"
    by code_simp+
  have cells: "load_contributions (c_contrib (row_at (sheet ex_state) 3)) = Some []"
      "load_contributions (c_contrib (row_at (sheet ex_state) 2)) = Some [(''root'', 500)]"
    by code_simp+
  have res1: "row = 3 \<and> n = 500" if "resolves ex_state credit row n" for row n
    using that found by (simp add: resolves_def credit_def)
  have res2: "row = 2 \<and> n = 600" if "resolves ex_state debit row n" for row n
    using that found by (simp add: resolves_def debit_def)
  from contributions_after_add_and_use [of ex_state credit ex_now st1] ok(1)
  obtain row n d where a: "resolves ex_state credit row n"
    "load_contributions (c_contrib (row_at (sheet ex_state) row)) = Some d"
    "0 < get_or_zero d (first_name (effective_user credit)) + n \<longrightarrow>
       (\<exists>d'. c_contrib (row_at (sheet st1) row) = JsonDict d' \<and>
          map_of d' = (map_of d)(first_name (effective_user credit) \<mapsto>
             get_or_zero d (first_name (effective_user credit)) + n) \<and>
          map_of d' = map_of (spec_contributions d (first_name (effective_user credit)) n))"
    by blast
  from res1 [OF a(1)] a(2) cells(1) have "row = 3" "n = 500" "d = []"
    by simp_all
  with a(3) have first: "\<exists>d'. c_contrib (row_at (sheet st1) 3) = JsonDict d' \<and>
      map_of d' ''root'' = Some 500"
    by (auto simp: actor get_or_zero_def)
  from contributions_after_add_and_use [of ex_state debit ex_now st2] ok(2)
  obtain row' n' d2 where b: "resolves ex_state debit row' n'"
    "load_contributions (c_contrib (row_at (sheet ex_state) row')) = Some d2"
    "(case map_of d2 (first_name (effective_user debit)) of
        None \<Rightarrow> c_contrib (row_at (sheet st2) row') = c_contrib (row_at (sheet ex_state) row')
      | Some old \<Rightarrow>
          (\<exists>d'. c_contrib (row_at (sheet st2) row') = JsonDict d' \<and>
             map_of d' = (if old - n' \<le> 0
                          then (map_of d2)(first_name (effective_user debit) := None)
                          else (map_of d2)(first_name (effective_user debit) \<mapsto> old - n')) \<and>
             map_of d' = map_of (spec_contributions d2 (first_name (effective_user debit)) (- n'))))"
    by blast
  from res2 [OF b(1)] b(2) cells(2) have "row' = 2" "n' = 600" "d2 = [(''root'', 500)]"
    by simp_all
  with b(3) have second: "\<exists>d'. c_contrib (row_at (sheet st2) 2) = JsonDict d' \<and>
      map_of d' ''root'' = None"
    by (auto simp: actor)
  from first second show ?thesis
    by (simp add: st1_def st2_def credit_def debit_def)
qed

section \<open>Proposals\<close>

lemma row_values_first_two:
  assumes "2 \<le> length (row_values a)"
  shows "row_values a ! 0 = c_id a \<and> row_values a ! 1 = c_name a"
  using assms by (simp add: row_values_def)

text \<open>
  A proposal that \<open>transfer\<close> stores is one of the caller, with a positive amount that
  the sender's balance covers, and from one row to another row.
\<close>

lemma transfer_Ok_D:
  assumes ok: "transfer st upd stamp = (Ok, st')"
  shows "\<exists>tid td. st' = st\<lparr>pending_transfers := (pending_transfers st)(tid \<mapsto> td)\<rparr> \<and>
      sender_id td = user_id (effective_user upd) \<and>
      find_user_row (sheet st) (user_id (effective_user upd)) = Some (sender_row td) \<and>
      find_user_by_username (sheet st) (args upd ! 0) = Some (target_row td) \<and>
      0 < amount td \<and>
      (\<exists>sb. py_int (c_balance (row_at (sheet st) (sender_row td))) = Some sb \<and> amount td \<le> sb) \<and>
      sender_row td \<noteq> target_row td"
proof -
  from ok obtain s_row t_row amt sb where
    s: "find_user_row (sheet st) (user_id (effective_user upd)) = Some s_row"
    and t: "find_user_by_username (sheet st) (args upd ! 0) = Some t_row"
    and a: "py_int (args upd ! 1) = Some amt" "0 < amt"
    and b: "py_int (c_balance (row_at (sheet st) s_row)) = Some sb" "amt \<le> sb"
    and len: "2 \<le> length (row_values (row_at (sheet st) t_row))"
    and self: "row_values (row_at (sheet st) t_row) ! 0 \<noteq> py_str (user_id (effective_user upd))"
    and auth: "can_modify st (effective_user upd)" and n: "2 \<le> length (args upd)"
    by (auto simp: transfer_def Let_def split: if_splits option.splits)
  from find_user_row_Some [OF s] row_values_first_two [OF len] self
  have diff: "s_row \<noteq> t_row"
    by auto
  define t_id where "t_id = row_values (row_at (sheet st) t_row) ! 0"
  define tid where "tid = py_str (user_id (effective_user upd)) @ ''_'' @ t_id @ ''_''
      @ py_str amt @ ''_'' @ stamp"
  define td where "td = \<lparr>sender_id = user_id (effective_user upd), sender_row = s_row,
      target_id = t_id, target_row = t_row,
      target_name = row_values (row_at (sheet st) t_row) ! 1, amount = amt\<rparr>"
  from ok s t a b len self auth n
  have "st' = st\<lparr>pending_transfers := (pending_transfers st)(tid \<mapsto> td)\<rparr>"
    by (simp add: transfer_def Let_def tid_def td_def t_id_def)
  with s t a b diff show ?thesis
    by (intro exI [of _ tid] exI [of _ td]) (simp add: td_def)
qed

end
